theory Spec2Isabelle
  imports Complex_Main "HOL-Library.Word" "HOL-Library.Log_Nat"
begin

section \<open>The array library as the notebook uses it\<close>

text \<open>
  The repository is one tutorial notebook, \<^verbatim>\<open>03_IntroductionToNumpy\<close>. Its code cells
  call the numerical array library \<^verbatim>\<open>numpy\<close> (imported as \<^verbatim>\<open>np\<close>); the library itself
  is not part of the repository. This section models the fragment of the library that
  the cells under study call. The notebook's own code (the cells) follows in the next
  sections.
\<close>

subsection \<open>Errors, element types, scalars\<close>

text \<open>
  The exceptions a cell can raise. \<open>Unmodelled\<close> is not an exception of the library: it
  marks a call that leaves the modelled fragment (for instance operands whose shapes
  differ and that the library would broadcast).
\<close>

datatype py_error = ValueError | IndexError | NameError | Unmodelled

text \<open>
  Modelled from the spec: the element storage types (\<^verbatim>\<open>dtype\<close>) of the external library
  that the cells under study meet: boolean, 8-bit unsigned integer, 64-bit signed
  integer (what \<^verbatim>\<open>np.arange\<close> yields for integer arguments) and 64-bit floating point.
\<close>

datatype dtype = boolean | uint8 | int64 | float64

text \<open>
  Modelled from the spec: a 64-bit float (IEEE 754 binary64) is a finite value, a
  negative zero, one of the two infinities or not-a-number. A finite value other than
  the negative zero is represented by the rational number it denotes: \<open>Fin 0\<close> is the
  positive zero.
\<close>

datatype f64 = Fin rat | NZero | PInf | NInf | NaN

definition two_pow :: "int \<Rightarrow> rat" where
  "two_pow e = (if 0 \<le> e then of_int (2 ^ nat e) else 1 / of_int (2 ^ nat (- e)))"

text \<open>
  Two auxiliary functions of the rounding below: \<open>two_pow e\<close> is the rational number
  \<open>2 ^ e\<close>, for an integer \<open>e\<close> of either sign, and for \<open>q > 0\<close>, \<open>floor_log2 q\<close> is the
  integer \<open>k\<close> with \<open>2 ^ k \<le> q < 2 ^ (k + 1)\<close>. \<open>round_half_even\<close> rounds to the nearest
  integer, a tie to the even one.
\<close>

definition floor_log2 :: "rat \<Rightarrow> int" where
  "floor_log2 q =
     (if 1 \<le> q then bitlen \<lfloor>q\<rfloor> - 1
      else let k = bitlen \<lfloor>1 / q\<rfloor> - 1
           in if q * two_pow k = 1 then - k else - k - 1)"

definition round_half_even :: "rat \<Rightarrow> int" where
  "round_half_even q =
     (let f = \<lfloor>q\<rfloor>; r = q - of_int f
      in if r < 1 / 2 then f else if 1 / 2 < r then f + 1 else if even f then f else f + 1)"

text \<open>
  Modelled from the spec: the rounding of the external library's 64-bit float
  arithmetic (IEEE 754, not under src/): a rational number goes to the nearest 64-bit
  float, ties to even, with 53 significant bits, the smallest exponent of the last
  place \<open>- 1074\<close> (subnormal numbers), and overflow to an infinity from \<open>2 ^ 1024\<close> on.
\<close>

definition round64 :: "rat \<Rightarrow> f64" where
  "round64 q =
     (if q = 0 then Fin 0
      else let e = max (floor_log2 \<bar>q\<bar> - 52) (- 1074);
               r = of_int (round_half_even (q / two_pow e)) * two_pow e
           in if r = 0 then (if q < 0 then NZero else Fin 0)
              else if two_pow 1024 \<le> \<bar>r\<bar> then (if 0 < q then PInf else NInf)
              else Fin r)"

fun f64_isnan :: "f64 \<Rightarrow> bool" where
  "f64_isnan NaN = True"
| "f64_isnan _ = False"

fun f64_isinf :: "f64 \<Rightarrow> bool" where
  "f64_isinf PInf = True"
| "f64_isinf NInf = True"
| "f64_isinf _ = False"

fun f64_iszero :: "f64 \<Rightarrow> bool" where
  "f64_iszero (Fin r) = (r = 0)"
| "f64_iszero NZero = True"
| "f64_iszero _ = False"

fun f64_signbit :: "f64 \<Rightarrow> bool" where
  "f64_signbit (Fin r) = (r < 0)"
| "f64_signbit NZero = True"
| "f64_signbit NInf = True"
| "f64_signbit _ = False"

text \<open>The rational value of a finite float (0 for the others, which callers exclude).\<close>

fun f64_val :: "f64 \<Rightarrow> rat" where
  "f64_val (Fin r) = r"
| "f64_val _ = 0"

text \<open>
  Modelled from the spec: "division producing an infinite value" is an inherent
  behaviour of the external library. Its float division is that of IEEE 754: dividing
  a nonzero finite value by a zero gives an infinity and raises no exception (the
  library prints a warning); \<open>0 / 0\<close> and \<open>inf / inf\<close> give not-a-number.
\<close>

definition f64_div :: "f64 \<Rightarrow> f64 \<Rightarrow> f64" where
  "f64_div x y =
     (let neg = (f64_signbit x \<noteq> f64_signbit y)
      in if f64_isnan x \<or> f64_isnan y then NaN
         else if f64_isinf x then (if f64_isinf y then NaN else if neg then NInf else PInf)
         else if f64_isinf y then (if neg then NZero else Fin 0)
         else if f64_iszero y then
                (if f64_iszero x then NaN else if neg then NInf else PInf)
         else if f64_iszero x then (if neg then NZero else Fin 0)
         else round64 (f64_val x / f64_val y))"

text \<open>
  Modelled from the spec: the external library's comparison of floats (IEEE 754): every
  comparison with not-a-number is false.
\<close>

fun f64_less :: "f64 \<Rightarrow> f64 \<Rightarrow> bool" where
  "f64_less NaN _ = False"
| "f64_less _ NaN = False"
| "f64_less _ NInf = False"
| "f64_less NInf _ = True"
| "f64_less PInf _ = False"
| "f64_less _ PInf = True"
| "f64_less x y = (f64_val x < f64_val y)"

fun f64_equal :: "f64 \<Rightarrow> f64 \<Rightarrow> bool" where
  "f64_equal NaN _ = False"
| "f64_equal _ NaN = False"
| "f64_equal PInf y = (y = PInf)"
| "f64_equal NInf y = (y = NInf)"
| "f64_equal x PInf = False"
| "f64_equal x NInf = False"
| "f64_equal x y = (f64_val x = f64_val y)"

datatype scalar = B bool | U8 "8 word" | I64 "64 word" | F64 f64

fun scalar_dtype :: "scalar \<Rightarrow> dtype" where
  "scalar_dtype (B _) = boolean"
| "scalar_dtype (U8 _) = uint8"
| "scalar_dtype (I64 _) = int64"
| "scalar_dtype (F64 _) = float64"

text \<open>The integer an integer or boolean scalar denotes (\<open>None\<close> for a float).\<close>

fun int_of_scalar :: "scalar \<Rightarrow> int option" where
  "int_of_scalar (B b) = Some (if b then 1 else 0)"
| "int_of_scalar (U8 w) = Some (uint w)"
| "int_of_scalar (I64 w) = Some (sint w)"
| "int_of_scalar (F64 _) = None"

subsection \<open>Arrays\<close>

text \<open>
  Modelled from the spec: an array is "a fixed-shape, homogeneously-typed grid of
  numeric values": a shape, an element type and the elements in row-major (C) order,
  the library's default memory layout.
\<close>

record ndarray =
  shape :: "nat list"
  dtype :: dtype
  data :: "scalar list"

definition size_of :: "ndarray \<Rightarrow> nat" where
  "size_of a = prod_list (shape a)"

definition wf_array :: "ndarray \<Rightarrow> bool" where
  "wf_array a = (length (data a) = prod_list (shape a) \<and>
                 list_all (\<lambda>v. scalar_dtype v = dtype a) (data a))"

text \<open>
  The Python values the cells under study handle: an array, an element read from an
  array, a Python integer, the tuple of index arrays that \<^verbatim>\<open>np.where\<close> returns, an
  element type and a string.
\<close>

datatype pyval =
    Array ndarray
  | Scalar scalar
  | PyInt int
  | IndexTuple "int list list"
  | DType dtype
  | Str string

text \<open>
  Modelled from the spec: \<^verbatim>\<open>np.ndindex(*shape)\<close>, every multi-index of a shape in
  row-major order (the last axis varies fastest), and \<^verbatim>\<open>np.ravel_multi_index\<close>, the
  position of a multi-index in the row-major element sequence.
\<close>

fun ndindex :: "nat list \<Rightarrow> nat list list" where
  "ndindex [] = [[]]"
| "ndindex (n # ns) = concat (map (\<lambda>i. map ((#) i) (ndindex ns)) [0..<n])"

fun ravel_multi_index :: "nat list \<Rightarrow> nat list \<Rightarrow> nat" where
  "ravel_multi_index (i # is) (n # ns) = i * prod_list ns + ravel_multi_index is ns"
| "ravel_multi_index _ _ = 0"

fun in_bounds :: "nat list \<Rightarrow> nat list \<Rightarrow> bool" where
  "in_bounds [] [] = True"
| "in_bounds (i # is) (n # ns) = (i < n \<and> in_bounds is ns)"
| "in_bounds _ _ = False"

text \<open>
  Modelled from the spec: the index normalisation of Python and of the external
  library: a negative index counts from the end, an index out of range raises
  \<^verbatim>\<open>IndexError\<close>.
\<close>

definition norm_index :: "nat \<Rightarrow> int \<Rightarrow> py_error + nat" where
  "norm_index n i =
     (let j = (if i < 0 then int n + i else i)
      in if 0 \<le> j \<and> j < int n then Inr (nat j) else Inl IndexError)"

fun norm_indices :: "nat list \<Rightarrow> int list \<Rightarrow> py_error + nat list" where
  "norm_indices [] [] = Inr []"
| "norm_indices (n # ns) (i # is) =
     (case norm_index n i of
        Inl e \<Rightarrow> Inl e
      | Inr j \<Rightarrow> (case norm_indices ns is of Inl e \<Rightarrow> Inl e | Inr js \<Rightarrow> Inr (j # js)))"
| "norm_indices _ _ = Inl Unmodelled"

text \<open>
  Modelled from the spec: \<^verbatim>\<open>a[i, j, ...]\<close> with one integer per axis reads one element;
  \<^verbatim>\<open>a[i, j, ...] = v\<close> stores \<open>v\<close>, cast to the array's element type, in place. A read or a
  store with more indices than axes raises \<^verbatim>\<open>IndexError\<close>; with fewer it yields or fills a
  sub-array, which is outside the fragment.
\<close>

definition getitem :: "ndarray \<Rightarrow> int list \<Rightarrow> py_error + scalar" where
  "getitem a idx =
     (if length idx > length (shape a) then Inl IndexError
      else case norm_indices (shape a) idx of
             Inl e \<Rightarrow> Inl e
           | Inr js \<Rightarrow> Inr (data a ! ravel_multi_index js (shape a)))"

text \<open>
  Modelled from the spec: conversion to 64-bit float (an integer beyond 53 bits is
  rounded), and the cast of a scalar to an element type, as a store into an array and
  \<^verbatim>\<open>astype\<close> perform it: an integer or boolean is reduced modulo \<open>2 ^ 8\<close> or \<open>2 ^ 64\<close>
  (C conversion), any nonzero value is \<open>True\<close>. The cast of a float to an integer type
  is outside the fragment.
\<close>

fun to_f64 :: "scalar \<Rightarrow> f64" where
  "to_f64 (B b) = Fin (if b then 1 else 0)"
| "to_f64 (U8 w) = round64 (of_int (uint w))"
| "to_f64 (I64 w) = round64 (of_int (sint w))"
| "to_f64 (F64 x) = x"

definition int_cast :: "dtype \<Rightarrow> int \<Rightarrow> scalar" where
  "int_cast t n =
     (case t of
        boolean \<Rightarrow> B (n \<noteq> 0)
      | uint8 \<Rightarrow> U8 (word_of_int n)
      | int64 \<Rightarrow> I64 (word_of_int n)
      | float64 \<Rightarrow> F64 (round64 (of_int n)))"

definition cast_scalar :: "dtype \<Rightarrow> scalar \<Rightarrow> py_error + scalar" where
  "cast_scalar t v =
     (case int_of_scalar v of
        Some n \<Rightarrow> Inr (int_cast t n)
      | None \<Rightarrow>
          (case t of
             float64 \<Rightarrow> Inr v
           | boolean \<Rightarrow> Inr (B (\<not> f64_iszero (to_f64 v)))
           | _ \<Rightarrow> Inl Unmodelled))"

fun cast_value :: "dtype \<Rightarrow> pyval \<Rightarrow> py_error + scalar" where
  "cast_value t (PyInt n) = Inr (int_cast t n)"
| "cast_value t (Scalar v) = cast_scalar t v"
| "cast_value t _ = Inl Unmodelled"

definition setitem :: "ndarray \<Rightarrow> int list \<Rightarrow> pyval \<Rightarrow> py_error + ndarray" where
  "setitem a idx v =
     (if length idx > length (shape a) then Inl IndexError
      else case norm_indices (shape a) idx of
             Inl e \<Rightarrow> Inl e
           | Inr js \<Rightarrow>
               (case cast_value (dtype a) v of
                  Inl e \<Rightarrow> Inl e
                | Inr w \<Rightarrow> Inr (a\<lparr>data := (data a)[ravel_multi_index js (shape a) := w]\<rparr>)))"

subsection \<open>Construction and reshaping\<close>

text \<open>
  Modelled from the spec: \<^verbatim>\<open>np.arange(start, stop)\<close> with integer arguments (\<^verbatim>\<open>np.arange(n)\<close>
  is \<^verbatim>\<open>np.arange(0, n)\<close>): the one-dimensional 64-bit integer array
  \<open>start, start + 1, ..., stop - 1\<close>; and \<^verbatim>\<open>np.zeros(shape, dtype)\<close>.
\<close>

definition np_arange :: "int \<Rightarrow> int \<Rightarrow> ndarray" where
  "np_arange start stop =
     \<lparr>shape = [nat (stop - start)], dtype = int64,
      data = map (\<lambda>n. I64 (word_of_int n)) [start..stop - 1]\<rparr>"

definition np_zeros :: "nat list \<Rightarrow> dtype \<Rightarrow> ndarray" where
  "np_zeros shp t = \<lparr>shape = shp, dtype = t, data = replicate (prod_list shp) (int_cast t 0)\<rparr>"

text \<open>
  Modelled from the spec: "a reshape preserves element count and ordering".
  \<^verbatim>\<open>a.reshape(shape)\<close> keeps the row-major element sequence and gives it the new shape;
  it raises \<^verbatim>\<open>ValueError\<close> when the new shape has another number of elements. (A target
  shape is a tuple of dimensions; the library's placeholder \<open>-1\<close> for one inferred
  dimension is not modelled.)
\<close>

definition reshape :: "ndarray \<Rightarrow> nat list \<Rightarrow> py_error + ndarray" where
  "reshape a shp =
     (if prod_list shp = length (data a) then Inr (a\<lparr>shape := shp\<rparr>) else Inl ValueError)"

text \<open>
  Modelled from the spec: \<^verbatim>\<open>a.flatten()\<close>, the elements of an array read in row-major
  order: the element at each multi-index, the multi-indices taken in row-major order.
\<close>

definition flatten :: "ndarray \<Rightarrow> scalar list" where
  "flatten a = map (\<lambda>idx. data a ! ravel_multi_index idx (shape a)) (ndindex (shape a))"



subsection \<open>Elementwise arithmetic\<close>

text \<open>
  Modelled from the spec: \<^verbatim>\<open>+\<close> on two scalars or two arrays of one integer type: the
  result has that type and wraps around. Operands of equal shape are combined
  element by element; other operand shapes and types are outside the fragment.
\<close>

fun scalar_add :: "scalar \<Rightarrow> scalar \<Rightarrow> py_error + scalar" where
  "scalar_add (I64 x) (I64 y) = Inr (I64 (x + y))"
| "scalar_add (U8 x) (U8 y) = Inr (U8 (x + y))"
| "scalar_add _ _ = Inl Unmodelled"

fun zip_with :: "(scalar \<Rightarrow> scalar \<Rightarrow> py_error + scalar) \<Rightarrow> scalar list \<Rightarrow> scalar list
                   \<Rightarrow> py_error + scalar list" where
  "zip_with f (x # xs) (y # ys) =
     (case f x y of
        Inl e \<Rightarrow> Inl e
      | Inr z \<Rightarrow> (case zip_with f xs ys of Inl e \<Rightarrow> Inl e | Inr zs \<Rightarrow> Inr (z # zs)))"
| "zip_with f _ _ = Inr []"

definition elementwise :: "(scalar \<Rightarrow> scalar \<Rightarrow> py_error + scalar) \<Rightarrow> dtype \<Rightarrow> ndarray \<Rightarrow> ndarray
                             \<Rightarrow> py_error + ndarray" where
  "elementwise f t a b =
     (if shape a \<noteq> shape b then Inl Unmodelled
      else case zip_with f (data a) (data b) of
             Inl e \<Rightarrow> Inl e
           | Inr zs \<Rightarrow> Inr \<lparr>shape = shape a, dtype = t, data = zs\<rparr>)"

definition add :: "ndarray \<Rightarrow> ndarray \<Rightarrow> py_error + ndarray" where
  "add a b = elementwise scalar_add (dtype a) a b"

text \<open>
  Modelled from the spec: "integer division by a library-aware divide operator promotes
  to floating point". \<^verbatim>\<open>/\<close> converts both operands to 64-bit float and divides them as
  floats; the result is a 64-bit float array whatever the operand types. The divisor is
  an array of the same shape or a Python integer in the range of the 64-bit integers
  (the library treats it as one); the library versions of the notebook's time convert
  such a scalar whatever the element type of the array.
\<close>

definition true_divide :: "ndarray \<Rightarrow> pyval \<Rightarrow> py_error + ndarray" where
  "true_divide a d =
     (case d of
        PyInt n \<Rightarrow>
          (if - (2 ^ 63) \<le> n \<and> n < 2 ^ 63
           then Inr \<lparr>shape = shape a, dtype = float64,
                     data = map (\<lambda>x. F64 (f64_div (to_f64 x) (round64 (of_int n)))) (data a)\<rparr>
           else Inl Unmodelled)
      | Array b \<Rightarrow>
          (if shape a \<noteq> shape b then Inl Unmodelled
           else Inr \<lparr>shape = shape a, dtype = float64,
                     data = map2 (\<lambda>x y. F64 (f64_div (to_f64 x) (to_f64 y))) (data a) (data b)\<rparr>)
      | _ \<Rightarrow> Inl Unmodelled)"




text \<open>
  Modelled from the spec: \<^verbatim>\<open>np.isinf\<close>, elementwise: true at the two infinities of a float
  array, false everywhere on an integer or boolean array.
\<close>

fun scalar_isinf :: "scalar \<Rightarrow> bool" where
  "scalar_isinf (F64 x) = f64_isinf x"
| "scalar_isinf _ = False"

definition np_isinf :: "ndarray \<Rightarrow> ndarray" where
  "np_isinf a = \<lparr>shape = shape a, dtype = boolean, data = map (\<lambda>x. B (scalar_isinf x)) (data a)\<rparr>"

subsection \<open>Comparisons and masks\<close>

text \<open>
  Modelled from the spec: "a boolean comparison yields an array of the same shape as its
  operand". \<^verbatim>\<open>b == c\<close>, \<^verbatim>\<open>b > c\<close>, \<^verbatim>\<open>b <= c\<close> and \<^verbatim>\<open>b < c\<close> with a Python integer \<open>c\<close>
  compare every element with \<open>c\<close>: an integer or boolean element by its value, a float
  element with \<open>c\<close> converted to float. \<^verbatim>\<open>&\<close> and \<^verbatim>\<open>|\<close> on two boolean arrays of one shape
  are the elementwise conjunction and disjunction.
\<close>

datatype cmp_op = Eq | Gt | LtE | Lt

fun int_compare :: "cmp_op \<Rightarrow> int \<Rightarrow> int \<Rightarrow> bool" where
  "int_compare Eq m c = (m = c)"
| "int_compare Gt m c = (c < m)"
| "int_compare LtE m c = (m \<le> c)"
| "int_compare Lt m c = (m < c)"

fun f64_compare :: "cmp_op \<Rightarrow> f64 \<Rightarrow> f64 \<Rightarrow> bool" where
  "f64_compare Eq x y = f64_equal x y"
| "f64_compare Gt x y = f64_less y x"
| "f64_compare LtE x y = (f64_less x y \<or> f64_equal x y)"
| "f64_compare Lt x y = f64_less x y"

definition scalar_compare :: "cmp_op \<Rightarrow> scalar \<Rightarrow> int \<Rightarrow> bool" where
  "scalar_compare oper v c =
     (case int_of_scalar v of
        Some m \<Rightarrow> int_compare oper m c
      | None \<Rightarrow> f64_compare oper (to_f64 v) (round64 (of_int c)))"

definition compare :: "cmp_op \<Rightarrow> ndarray \<Rightarrow> int \<Rightarrow> ndarray" where
  "compare oper b c =
     \<lparr>shape = shape b, dtype = boolean, data = map (\<lambda>x. B (scalar_compare oper x c)) (data b)\<rparr>"

fun scalar_and :: "scalar \<Rightarrow> scalar \<Rightarrow> py_error + scalar" where
  "scalar_and (B p) (B q) = Inr (B (p \<and> q))"
| "scalar_and _ _ = Inl Unmodelled"

fun scalar_or :: "scalar \<Rightarrow> scalar \<Rightarrow> py_error + scalar" where
  "scalar_or (B p) (B q) = Inr (B (p \<or> q))"
| "scalar_or _ _ = Inl Unmodelled"

definition bitwise_and :: "ndarray \<Rightarrow> ndarray \<Rightarrow> py_error + ndarray" where
  "bitwise_and m n = elementwise scalar_and boolean m n"

definition bitwise_or :: "ndarray \<Rightarrow> ndarray \<Rightarrow> py_error + ndarray" where
  "bitwise_or m n = elementwise scalar_or boolean m n"

text \<open>
  Modelled from the spec: "a boolean array of the same shape as a source array, used to
  select elements satisfying a condition". The mask of an elementwise condition \<open>P\<close> is
  the boolean array of the shape of \<open>b\<close> that holds \<open>P\<close> of each element.
\<close>

definition elementwise_mask :: "(scalar \<Rightarrow> bool) \<Rightarrow> ndarray \<Rightarrow> ndarray" where
  "elementwise_mask P b = \<lparr>shape = shape b, dtype = boolean, data = map (\<lambda>v. B (P v)) (data b)\<rparr>"

subsection \<open>Selecting with \<^verbatim>\<open>np.where\<close>\<close>

text \<open>
  Modelled from the spec: \<^verbatim>\<open>np.where(cond)\<close> with one argument is \<^verbatim>\<open>cond.nonzero()\<close>: a
  tuple with one index array per axis, holding the coordinates of the elements that are
  true (nonzero), the elements taken in row-major order. The library refuses an array
  without axes (its versions of the notebook's time answered with a deprecation
  warning, and the indexing that follows then raised \<^verbatim>\<open>IndexError\<close>).
\<close>

fun truthy :: "scalar \<Rightarrow> bool" where
  "truthy (B b) = b"
| "truthy (U8 w) = (w \<noteq> 0)"
| "truthy (I64 w) = (w \<noteq> 0)"
| "truthy (F64 x) = (\<not> f64_iszero x)"

definition nonzero_positions :: "ndarray \<Rightarrow> nat list list" where
  "nonzero_positions m =
     filter (\<lambda>idx. truthy (data m ! ravel_multi_index idx (shape m))) (ndindex (shape m))"

definition np_where :: "ndarray \<Rightarrow> py_error + int list list" where
  "np_where m =
     (if shape m = [] then Inl ValueError
      else Inr (map (\<lambda>k. map (\<lambda>idx. int (idx ! k)) (nonzero_positions m))
                  [0..<length (shape m)]))"

text \<open>
  Modelled from the spec: indexing with a tuple of integer index arrays, one per axis
  and all of one length \<open>n\<close>: \<^verbatim>\<open>b[idx]\<close> is the one-dimensional array of the \<open>n\<close> elements
  \<^verbatim>\<open>b[idx[0][j], idx[1][j], ...]\<close>, and \<^verbatim>\<open>b[idx] = v\<close> stores \<open>v\<close> (cast to the element type) at
  each of these positions. More index arrays than axes raise \<^verbatim>\<open>IndexError\<close>; fewer, or
  index arrays of different lengths, are outside the fragment.
\<close>

definition rows_of :: "nat \<Rightarrow> int list list \<Rightarrow> int list list" where
  "rows_of n cols = map (\<lambda>j. map (\<lambda>col. col ! j) cols) [0..<n]"

definition index_rows :: "ndarray \<Rightarrow> int list list \<Rightarrow> py_error + int list list" where
  "index_rows a idx =
     (if length idx > length (shape a) then Inl IndexError
      else if length idx < length (shape a) \<or> idx = [] then Inl Unmodelled
      else if \<not> list_all (\<lambda>col. length col = length (hd idx)) idx then Inl Unmodelled
      else Inr (rows_of (length (hd idx)) idx))"

fun getitems :: "ndarray \<Rightarrow> int list list \<Rightarrow> py_error + scalar list" where
  "getitems a [] = Inr []"
| "getitems a (r # rs) =
     (case getitem a r of
        Inl e \<Rightarrow> Inl e
      | Inr v \<Rightarrow> (case getitems a rs of Inl e \<Rightarrow> Inl e | Inr vs \<Rightarrow> Inr (v # vs)))"

definition getitem_tuple :: "ndarray \<Rightarrow> int list list \<Rightarrow> py_error + ndarray" where
  "getitem_tuple a idx =
     (case index_rows a idx of
        Inl e \<Rightarrow> Inl e
      | Inr rows \<Rightarrow>
          (case getitems a rows of
             Inl e \<Rightarrow> Inl e
           | Inr vs \<Rightarrow> Inr \<lparr>shape = [length vs], dtype = dtype a, data = vs\<rparr>))"



section \<open>The notebook's cells\<close>

text \<open>
  A cell runs in the variable environment that the cells run before it have left
  (Python's module namespace, a dictionary from names to values): it reads variables,
  binds variables and produces output. Reading a name that is not bound raises
  \<^verbatim>\<open>NameError\<close>. The names \<^verbatim>\<open>np\<close> and \<^verbatim>\<open>plt\<close>, bound by the imports of the first cell, and
  Python's builtins are not kept in the environment: the library calls are the
  functions of the previous section.

  The environment is kept as an association list. Where two variables share the
  memory of one array (\<^verbatim>\<open>b = a.reshape(...)\<close> is a view of \<open>a\<close>), no cell under study
  changes either of them, so a variable holds its array by value.
\<close>

type_synonym env = "(string \<times> pyval) list"

datatype cell_output = Printed "pyval list" | Shown ndarray | Colorbar

type_synonym cell = "env \<Rightarrow> py_error + env \<times> cell_output list"

definition lookup :: "env \<Rightarrow> string \<Rightarrow> py_error + pyval" where
  "lookup e x = (case map_of e x of None \<Rightarrow> Inl NameError | Some v \<Rightarrow> Inr v)"

fun assign :: "env \<Rightarrow> string \<Rightarrow> pyval \<Rightarrow> env" where
  "assign [] x v = [(x, v)]"
| "assign ((y, w) # e) x v = (if x = y then (y, v) # e else (y, w) # assign e x v)"

definition and_then :: "py_error + 'a \<Rightarrow> ('a \<Rightarrow> py_error + 'b) \<Rightarrow> py_error + 'b" where
  "and_then r f = (case r of Inl e \<Rightarrow> Inl e | Inr v \<Rightarrow> f v)"

fun as_array :: "pyval \<Rightarrow> py_error + ndarray" where
  "as_array (Array a) = Inr a"
| "as_array _ = Inl Unmodelled"

fun as_index_tuple :: "pyval \<Rightarrow> py_error + int list list" where
  "as_index_tuple (IndexTuple t) = Inr t"
| "as_index_tuple _ = Inl Unmodelled"

definition get_array :: "env \<Rightarrow> string \<Rightarrow> py_error + ndarray" where
  "get_array e x = and_then (lookup e x) as_array"

definition get_index_tuple :: "env \<Rightarrow> string \<Rightarrow> py_error + int list list" where
  "get_index_tuple e x = and_then (lookup e x) as_index_tuple"

text \<open>\<^verbatim>\<open>print(x)\<close> for a variable \<open>x\<close>, as the last statement of a cell.\<close>

definition print_var :: "env \<Rightarrow> string \<Rightarrow> py_error + env \<times> cell_output list" where
  "print_var e x = and_then (lookup e x) (\<lambda>v. Inr (e, [Printed [v]]))"

fun run_cells :: "cell list \<Rightarrow> env \<Rightarrow> py_error + env \<times> cell_output list" where
  "run_cells [] e = Inr (e, [])"
| "run_cells (c # cs) e =
     and_then (c e) (\<lambda>(e1, out1).
     and_then (run_cells cs e1) (\<lambda>(e2, out2). Inr (e2, out1 @ out2)))"

text \<open>What a run leaves in a variable.\<close>

definition variable :: "string \<Rightarrow> py_error + env \<times> cell_output list \<Rightarrow> py_error + pyval" where
  "variable x r = and_then r (\<lambda>(e, out). lookup e x)"

subsection \<open>Creating and reshaping (lines 202, 427 and 494 of the notebook file)\<close>

text \<open>
  \<^verbatim>\<open>b = np.arange(9).reshape( (3, 3) )
  print(b)\<close>
\<close>

definition cell_202 :: cell where
  "cell_202 e =
     and_then (reshape (np_arange 0 9) [3, 3]) (\<lambda>b.
     print_var (assign e ''b'' (Array b)) ''b'')"

text \<open>
  \<^verbatim>\<open>a = np.arange(100)
  print(a)\<close>
\<close>

definition cell_427 :: cell where
  "cell_427 e = print_var (assign e ''a'' (Array (np_arange 0 100))) ''a''"

text \<open>
  \<^verbatim>\<open>b = a.reshape((10,10))
  print(b)\<close>
\<close>

definition cell_494 :: cell where
  "cell_494 e =
     and_then (get_array e ''a'') (\<lambda>a.
     and_then (reshape a [10, 10]) (\<lambda>b.
     print_var (assign e ''b'' (Array b)) ''b''))"

subsection \<open>Boolean arrays (lines 597 to 729)\<close>

text \<open>
  The conditions these cells put on \<open>b\<close>: a comparison with a Python integer
  (\<^verbatim>\<open>b == c\<close>, \<^verbatim>\<open>b > c\<close>, \<^verbatim>\<open>b <= c\<close>, \<^verbatim>\<open>b < c\<close>), and \<^verbatim>\<open>&\<close> and \<^verbatim>\<open>|\<close> of two conditions.
  \<open>mask_of\<close> computes the mask of a condition with the array operations, as the cells
  do; \<open>satisfies\<close> says when one element satisfies the condition.
\<close>

datatype condition = Cmp cmp_op int | BitAnd condition condition | BitOr condition condition

fun mask_of :: "condition \<Rightarrow> ndarray \<Rightarrow> py_error + ndarray" where
  "mask_of (Cmp oper c) b = Inr (compare oper b c)"
| "mask_of (BitAnd p q) b =
     and_then (mask_of p b) (\<lambda>m. and_then (mask_of q b) (\<lambda>n. bitwise_and m n))"
| "mask_of (BitOr p q) b =
     and_then (mask_of p b) (\<lambda>m. and_then (mask_of q b) (\<lambda>n. bitwise_or m n))"

fun satisfies :: "condition \<Rightarrow> scalar \<Rightarrow> bool" where
  "satisfies (Cmp oper c) v = scalar_compare oper v c"
| "satisfies (BitAnd p q) v = (satisfies p v \<and> satisfies q v)"
| "satisfies (BitOr p q) v = (satisfies p v \<or> satisfies q v)"

text \<open>\<^verbatim>\<open>print(b == 0)\<close>\<close>

definition cell_597 :: cell where
  "cell_597 e =
     and_then (get_array e ''b'') (\<lambda>b. Inr (e, [Printed [Array (compare Eq b 0)]]))"

text \<open>\<^verbatim>\<open>print( (b > 10) & (b <= 75) )\<close>\<close>

definition cell_617 :: cell where
  "cell_617 e =
     and_then (get_array e ''b'') (\<lambda>b1.
     and_then (get_array e ''b'') (\<lambda>b2.
     and_then (bitwise_and (compare Gt b1 10) (compare LtE b2 75)) (\<lambda>m.
     Inr (e, [Printed [Array m]]))))"

text \<open>\<^verbatim>\<open>print( (b > 10) & (b < 75) | (b == 99) )\<close>\<close>

definition cell_627 :: cell where
  "cell_627 e =
     and_then (get_array e ''b'') (\<lambda>b1.
     and_then (get_array e ''b'') (\<lambda>b2.
     and_then (bitwise_and (compare Gt b1 10) (compare Lt b2 75)) (\<lambda>m.
     and_then (get_array e ''b'') (\<lambda>b3.
     and_then (bitwise_or m (compare Eq b3 99)) (\<lambda>r.
     Inr (e, [Printed [Array r]]))))))"


text \<open>
  \<^verbatim>\<open>idx = np.where(b > 10)
  print(idx)\<close>
\<close>

definition cell_686 :: cell where
  "cell_686 e =
     and_then (get_array e ''b'') (\<lambda>b.
     and_then (np_where (compare Gt b 10)) (\<lambda>idx.
     print_var (assign e ''idx'' (IndexTuple idx)) ''idx''))"

text \<open>\<^verbatim>\<open>print(b[idx])\<close>\<close>

definition cell_707 :: cell where
  "cell_707 e =
     and_then (get_array e ''b'') (\<lambda>b.
     and_then (get_index_tuple e ''idx'') (\<lambda>idx.
     and_then (getitem_tuple b idx) (\<lambda>r. Inr (e, [Printed [Array r]]))))"

subsection \<open>Array algebra (lines 752 to 892)\<close>

text \<open>
  \<^verbatim>\<open>a = np.arange(9)
  b = np.arange(10,19)
  print(a, b, sep = "\n\n")\<close>
\<close>

definition cell_752 :: cell where
  "cell_752 e =
     (let e1 = assign e ''a'' (Array (np_arange 0 9));
          e2 = assign e1 ''b'' (Array (np_arange 10 19))
      in and_then (lookup e2 ''a'') (\<lambda>a.
         and_then (lookup e2 ''b'') (\<lambda>b. Inr (e2, [Printed [a, b]]))))"

text \<open>
  \<^verbatim>\<open>x = a + b
  print(x)\<close>
\<close>

definition cell_764 :: cell where
  "cell_764 e =
     and_then (get_array e ''a'') (\<lambda>a.
     and_then (get_array e ''b'') (\<lambda>b.
     and_then (add a b) (\<lambda>x.
     print_var (assign e ''x'' (Array x)) ''x'')))"

text \<open>
  \<^verbatim>\<open>x = np.zeros(a.shape, dtype = np.uint8)
  for i in range(9):
      x[i] = a[i] + b[i]

  print(x)\<close>

  The loop body reads \<open>a[i]\<close> and \<open>b[i]\<close>, adds the two elements and stores the sum in
  \<open>x[i]\<close>; the loop runs it for \<open>i = 0, ..., 8\<close> and leaves \<open>i\<close> bound.
\<close>

definition loop_body_783 :: "env \<Rightarrow> int \<Rightarrow> py_error + env" where
  "loop_body_783 e0 i =
     (let e = assign e0 ''i'' (PyInt i)
      in and_then (get_array e ''a'') (\<lambda>a.
         and_then (getitem a [i]) (\<lambda>ai.
         and_then (get_array e ''b'') (\<lambda>b.
         and_then (getitem b [i]) (\<lambda>bi.
         and_then (scalar_add ai bi) (\<lambda>v.
         and_then (get_array e ''x'') (\<lambda>x.
         and_then (setitem x [i] (Scalar v)) (\<lambda>x'.
         Inr (assign e ''x'' (Array x'))))))))))"

fun for_loop :: "(env \<Rightarrow> int \<Rightarrow> py_error + env) \<Rightarrow> int list \<Rightarrow> env \<Rightarrow> py_error + env" where
  "for_loop body [] e = Inr e"
| "for_loop body (i # is) e = and_then (body e i) (for_loop body is)"

definition cell_783 :: cell where
  "cell_783 e =
     and_then (get_array e ''a'') (\<lambda>a.
     and_then (for_loop loop_body_783 [0..8] (assign e ''x'' (Array (np_zeros (shape a) uint8))))
       (\<lambda>e1. print_var e1 ''x''))"

text \<open>
  \<^verbatim>\<open>z = b / a
  print(z)\<close>
\<close>

definition cell_818 :: cell where
  "cell_818 e =
     and_then (get_array e ''b'') (\<lambda>b.
     and_then (lookup e ''a'') (\<lambda>a.
     and_then (true_divide b a) (\<lambda>z.
     print_var (assign e ''z'' (Array z)) ''z'')))"

text \<open>\<^verbatim>\<open>print(np.isinf(z))\<close>\<close>

definition cell_845 :: cell where
  "cell_845 e =
     and_then (get_array e ''z'') (\<lambda>z. Inr (e, [Printed [Array (np_isinf z)]]))"




subsection \<open>Data types (lines 1255 and 1268)\<close>



text \<open>What the last cell of a run put out last.\<close>

definition last_output :: "py_error + env \<times> cell_output list \<Rightarrow> cell_output option" where
  "last_output r =
     (case r of Inl e \<Rightarrow> None | Inr (e, out) \<Rightarrow> (if out = [] then None else Some (last out)))"


text \<open>The shape and the integer values of an array that a run has produced.\<close>

definition array_values :: "py_error + pyval \<Rightarrow> (nat list \<times> int option list) option" where
  "array_values r =
     (case r of Inr (Array a) \<Rightarrow> Some (shape a, map int_of_scalar (data a)) | _ \<Rightarrow> None)"

section \<open>The notebook's source\<close>

text \<open>
  Some statements of the specification are about the text of the code cells (which
  cells contain a loop, which names a cell reads). For these the source of every code
  cell is kept as data: the syntax tree of its statements, in the constructors of
  Python's \<^verbatim>\<open>ast\<close> module (\<open>Num\<close>, \<open>Imag\<close> and \<open>StrConst\<close> are its \<^verbatim>\<open>Constant\<close> of an integer,
  an imaginary number and a string; a keyword argument stands in the argument list of
  its call; an operator is kept as its symbol; \<open>Absent\<close> is a bound that a slice
  omits). \<open>While\<close>, \<open>IfStmt\<close>, \<open>Try\<close> (the body and the handlers) and \<open>FunctionDef\<close> are
  the other statements of the language that make control flow; no cell uses them.
\<close>

datatype expr =
    Name string
  | Num int
  | Imag int
  | StrConst string
  | Attribute expr string
  | Call expr "expr list"
  | Keyword string expr
  | Subscript expr expr
  | Slice expr expr expr
  | Absent
  | Tuple "expr list"
  | ListE "expr list"
  | BinOp expr string expr
  | UnaryOp string expr
  | Compare expr string expr

datatype stmt =
    Magic string
  | Import string string
  | Assign expr expr
  | Expr expr
  | For string expr "stmt list"
  | While expr "stmt list"
  | IfStmt expr "stmt list" "stmt list"
  | Try "stmt list" "stmt list"
  | FunctionDef string "stmt list"

text \<open>
  The code cells of \<^verbatim>\<open>03_IntroductionToNumpy-checkpoint.ipynb\<close>, in the order of the
  notebook, each with the line of the notebook file on which its source starts.
\<close>

definition notebook :: "(nat \<times> stmt list) list" where
  "notebook =
     [(29,
       [Magic ''matplotlib inline'',
        Import ''numpy'' ''np'',
        Import ''matplotlib.pyplot'' ''plt'']),
      (51,
       [Assign (Name ''a'') (Call (Attribute (Name ''np'') ''array'') [ListE [Num 0, Num 1, Num 2, Num 3, Num 4, Num 5, Num 6, Num 7, Num 8]]),
        Expr (Call (Name ''print'') [Name ''a''])]),
      (70,
       [Assign (Name ''a'') (Call (Attribute (Name ''np'') ''arange'') [Num 9]),
        Expr (Call (Name ''print'') [Name ''a''])]),
      (89, [Expr (Call (Name ''print'') [Attribute (Name ''a'') ''shape''])]),
      (109, [Expr (Call (Name ''print'') [Subscript (Name ''a'') (Num 0)])]),
      (127, [Expr (Call (Name ''print'') [Subscript (Name ''a'') (Num 1)])]),
      (145, [Expr (Call (Name ''print'') [Subscript (Name ''a'') (UnaryOp ''-'' (Num 1))])]),
      (163, [Expr (Call (Name ''print'') [Subscript (Name ''a'') (UnaryOp ''-'' (Num 2))])]),
      (183,
       [Assign (Subscript (Name ''a'') (Num 5)) (Num 1000),
        Expr (Call (Name ''print'') [Name ''a''])]),
      (202,
       [Assign (Name ''b'') (Call (Attribute (Call (Attribute (Name ''np'') ''arange'') [Num 9]) ''reshape'') [Tuple [Num 3, Num 3]]),
        Expr (Call (Name ''print'') [Name ''b''])]),
      (213, [Expr (Call (Name ''print'') [Attribute (Name ''b'') ''shape''])]),
      (231,
       [Expr (Call (Attribute (Name ''plt'') ''imshow'') [Name ''b'']),
        Expr (Call (Attribute (Name ''plt'') ''colorbar'') [])]),
      (250, [Expr (Call (Name ''print'') [Attribute (Name ''b'') ''T''])]),
      (268,
       [Assign (Name ''a'') (Call (Attribute (Call (Attribute (Name ''np'') ''arange'') [Num 27]) ''reshape'') [Tuple [Num 3, Num 3, Num 3]]),
        Expr (Call (Name ''print'') [Name ''a''])]),
      (279, [Expr (Call (Name ''print'') [Attribute (Name ''a'') ''shape''])]),
      (297, [Expr (Call (Name ''print'') [Subscript (Name ''a'') (Tuple [Num 0, Num 0, Num 0])])]),
      (307, [Expr (Call (Name ''print'') [Subscript (Name ''a'') (Tuple [Num 1, Num 2, Num 2])])]),
      (317, [Expr (Call (Name ''print'') [Subscript (Name ''a'') (Tuple [UnaryOp ''-'' (Num 1), UnaryOp ''-'' (Num 1), UnaryOp ''-'' (Num 1)])])]),
      (335, [Expr (Call (Name ''print'') [Subscript (Name ''a'') (Tuple [Num 0, Slice Absent Absent Absent, Slice Absent Absent Absent])])]),
      (353, [Expr (Call (Name ''print'') [Subscript (Name ''a'') (Num 0)])]),
      (363, [Expr (Call (Name ''print'') [Subscript (Name ''a'') (Num 1)])]),
      (373, [Expr (Call (Name ''print'') [Subscript (Name ''a'') (UnaryOp ''-'' (Num 1))])]),
      (391, [Expr (Call (Name ''print'') [Subscript (Name ''a'') (Tuple [Slice Absent Absent Absent, Num 0, Slice Absent Absent Absent])])]),
      (409, [Expr (Call (Name ''print'') [Subscript (Name ''a'') (Tuple [Slice Absent Absent Absent, Slice Absent Absent Absent, Num 0])])]),
      (427,
       [Assign (Name ''a'') (Call (Attribute (Name ''np'') ''arange'') [Num 100]),
        Expr (Call (Name ''print'') [Name ''a''])]),
      (438, [Expr (Call (Name ''print'') [Attribute (Name ''a'') ''shape''])]),
      (456, [Expr (Call (Name ''print'') [Subscript (Name ''a'') (ListE [Num 0, Num 10, Num 20, Num 55])])]),
      (476, [Expr (Call (Name ''print'') [Subscript (Name ''a'') (Slice Absent Absent (Num 5))])]),
      (494,
       [Assign (Name ''b'') (Call (Attribute (Name ''a'') ''reshape'') [Tuple [Num 10, Num 10]]),
        Expr (Call (Name ''print'') [Name ''b''])]),
      (513, [Expr (Call (Name ''print'') [Subscript (Name ''b'') (Tuple [Slice Absent Absent (Num 2), Slice Absent Absent Absent])])]),
      (531, [Expr (Call (Name ''print'') [Subscript (Name ''b'') (Slice Absent Absent (Num 2))])]),
      (549, [Expr (Call (Name ''print'') [Subscript (Name ''b'') (Tuple [Slice Absent Absent Absent, Slice Absent Absent (Num 2)])])]),
      (567, [Expr (Call (Name ''print'') [Subscript (Name ''b'') (Slice Absent Absent (UnaryOp ''-'' (Num 2)))])]),
      (597, [Expr (Call (Name ''print'') [Compare (Name ''b'') ''=='' (Num 0)])]),
      (607, [Expr (Call (Name ''print'') [Compare (Name ''b'') ''>'' (Num 25)])]),
      (617, [Expr (Call (Name ''print'') [BinOp (Compare (Name ''b'') ''>'' (Num 10)) ''&'' (Compare (Name ''b'') ''<='' (Num 75))])]),
      (627, [Expr (Call (Name ''print'') [BinOp (BinOp (Compare (Name ''b'') ''>'' (Num 10)) ''&'' (Compare (Name ''b'') ''<'' (Num 75))) ''|'' (Compare (Name ''b'') ''=='' (Num 99))])]),
      (645,
       [Assign (Name ''mask'') (Compare (Name ''b'') ''>'' (Num 50)),
        Expr (Call (Attribute (Name ''plt'') ''imshow'') [Name ''mask'']),
        Expr (Call (Attribute (Name ''plt'') ''colorbar'') [])]),
      (667,
       [Assign (Name ''idx'') (Call (Attribute (Name ''np'') ''where'') [Compare (Name ''b'') ''=='' (Num 5)]),
        Expr (Call (Name ''print'') [Name ''idx''])]),
      (686,
       [Assign (Name ''idx'') (Call (Attribute (Name ''np'') ''where'') [Compare (Name ''b'') ''>'' (Num 10)]),
        Expr (Call (Name ''print'') [Name ''idx''])]),
      (707, [Expr (Call (Name ''print'') [Subscript (Name ''b'') (Name ''idx'')])]),
      (729,
       [Assign (Name ''idx'') (Call (Attribute (Name ''np'') ''where'') [BinOp (Compare (Name ''b'') ''>'' (Num 10)) ''&'' (Compare (Name ''b'') ''<='' (Num 60))]),
        Expr (Call (Name ''print'') [Subscript (Name ''b'') (Name ''idx'')])]),
      (752,
       [Assign (Name ''a'') (Call (Attribute (Name ''np'') ''arange'') [Num 9]),
        Assign (Name ''b'') (Call (Attribute (Name ''np'') ''arange'') [Num 10, Num 19]),
        Expr (Call (Name ''print'') [Name ''a'', Name ''b'', Keyword ''sep'' (StrConst ([CHR 0x0A] @ [CHR 0x0A]))])]),
      (764,
       [Assign (Name ''x'') (BinOp (Name ''a'') ''+'' (Name ''b'')),
        Expr (Call (Name ''print'') [Name ''x''])]),
      (783,
       [Assign (Name ''x'') (Call (Attribute (Name ''np'') ''zeros'') [Attribute (Name ''a'') ''shape'', Keyword ''dtype'' (Attribute (Name ''np'') ''uint8'')]),
        For ''i'' (Call (Name ''range'') [Num 9]) [Assign (Subscript (Name ''x'') (Name ''i'')) (BinOp (Subscript (Name ''a'') (Name ''i'')) ''+'' (Subscript (Name ''b'') (Name ''i'')))],
        Expr (Call (Name ''print'') [Name ''x''])]),
      (807,
       [Assign (Name ''y'') (BinOp (Name ''a'') ''*'' (Name ''b'')),
        Expr (Call (Name ''print'') [Name ''y''])]),
      (818,
       [Assign (Name ''z'') (BinOp (Name ''b'') ''/'' (Name ''a'')),
        Expr (Call (Name ''print'') [Name ''z''])]),
      (845, [Expr (Call (Name ''print'') [Call (Attribute (Name ''np'') ''isinf'') [Name ''z'']])]),
      (863,
       [Assign (Name ''idx'') (Call (Attribute (Name ''np'') ''where'') [Call (Attribute (Name ''np'') ''isinf'') [Name ''z'']]),
        Expr (Call (Name ''print'') [Name ''idx''])]),
      (874, [Expr (Call (Name ''print'') [Subscript (Name ''z'') (Name ''idx'')])]),
      (892,
       [Assign (Subscript (Name ''z'') (Name ''idx'')) (Num 0),
        Expr (Call (Name ''print'') [Name ''z''])]),
      (911,
       [Assign (Name ''a'') (Call (Attribute (Call (Attribute (Name ''np'') ''arange'') [Num 9]) ''reshape'') [Tuple [Num 3, Num 3]]),
        Assign (Name ''b'') (BinOp (Name ''a'') ''**'' (Num 2)),
        Expr (Call (Name ''print'') [Name ''b''])]),
      (931, [Expr (Call (Name ''print'') [Call (Attribute (Name ''np'') ''sqrt'') [Name ''b'']])]),
      (949,
       [Assign (Name ''a'') (Call (Attribute (Call (Attribute (Name ''np'') ''arange'') [Num 9]) ''reshape'') [Tuple [Num 3, Num 3]]),
        Assign (Name ''b'') (Call (Attribute (Call (Attribute (Name ''np'') ''arange'') [Num 9]) ''reshape'') [Tuple [Num 3, Num 3]]),
        Assign (Name ''x'') (BinOp (Name ''a'') ''**'' (Name ''b'')),
        Expr (Call (Name ''print'') [Name ''x''])]),
      (972,
       [Assign (Name ''y'') (Call (Attribute (Name ''np'') ''log'') [Name ''x'']),
        Expr (Call (Name ''print'') [Name ''y''])]),
      (991,
       [Assign (Name ''z'') (Call (Attribute (Name ''np'') ''log10'') [Name ''x'']),
        Expr (Call (Name ''print'') [Name ''z''])]),
      (1010,
       [Assign (Name ''a'') (Call (Attribute (Name ''np'') ''arange'') [Num 360]),
        Expr (Call (Name ''print'') [Name ''a''])]),
      (1035, [Expr (Call (Name ''print'') [Attribute (Name ''np'') ''pi''])]),
      (1053,
       [Assign (Name ''theta'') (BinOp (BinOp (BinOp (Name ''a'') ''*'' (Num 2)) ''*'' (Attribute (Name ''np'') ''pi'')) ''/'' (Num 360)),
        Assign (Name ''sintheta'') (Call (Attribute (Name ''np'') ''sin'') [Name ''theta'']),
        Expr (Call (Attribute (Name ''plt'') ''plot'') [Name ''theta'', Name ''sintheta'']),
        Expr (Call (Attribute (Name ''plt'') ''xlabel'') [StrConst (''$'' @ [CHR 0x5C] @ ''theta$''), Keyword ''fontsize'' (Num 16)]),
        Expr (Call (Attribute (Name ''plt'') ''ylabel'') [StrConst (''$sin('' @ [CHR 0x5C] @ ''theta)$''), Keyword ''fontsize'' (Num 16)])]),
      (1078,
       [Assign (Name ''a'') (Call (Attribute (Call (Attribute (Name ''np'') ''arange'') [Num 1000]) ''reshape'') [Tuple [Num 10, Num 10, Num 10]]),
        Expr (Call (Name ''print'') [Name ''a''])]),
      (1089, [Expr (Call (Name ''print'') [Call (Attribute (Name ''a'') ''sum'') []])]),
      (1099, [Expr (Call (Name ''print'') [Call (Attribute (Name ''a'') ''max'') []])]),
      (1109, [Expr (Call (Name ''print'') [Call (Attribute (Name ''a'') ''mean'') []])]),
      (1129, [Expr (Call (Name ''print'') [Call (Attribute (Name ''a'') ''mean'') [Keyword ''axis'' (Num 0)]])]),
      (1147,
       [Expr (Call (Attribute (Name ''plt'') ''imshow'') [Call (Attribute (Name ''a'') ''mean'') [Keyword ''axis'' (Num 0)]]),
        Expr (Call (Attribute (Name ''plt'') ''colorbar'') [])]),
      (1170,
       [Assign (Name ''a'') (Call (Attribute (Name ''np'') ''zeros'') [Tuple [Num 100, Num 100], Keyword ''dtype'' (Attribute (Name ''np'') ''uint8'')]),
        Expr (Call (Name ''print'') [Attribute (Name ''a'') ''dtype''])]),
      (1189,
       [Assign (Name ''b'') (Call (Attribute (Name ''np'') ''zeros'') [Tuple [Num 100, Num 100], Keyword ''dtype'' (Attribute (Name ''np'') ''float64'')]),
        Expr (Call (Name ''print'') [Attribute (Name ''b'') ''dtype''])]),
      (1208, [Expr (Call (Name ''print'') [Name ''a''])]),
      (1218, [Expr (Call (Name ''print'') [Name ''b''])]),
      (1236,
       [Assign (Name ''b'') (Call (Attribute (Name ''b'') ''astype'') [Attribute (Name ''np'') ''uint8'']),
        Expr (Call (Name ''print'') [Attribute (Name ''b'') ''dtype''])]),
      (1255,
       [Assign (Name ''a'') (Call (Attribute (Name ''np'') ''arange'') [Num 9]),
        Expr (Call (Name ''print'') [StrConst ''Assumed datatype: '', Attribute (Name ''a'') ''dtype'']),
        Assign (Name ''a'') (Call (Attribute (Name ''a'') ''astype'') [Attribute (Name ''np'') ''uint8'']),
        Expr (Call (Name ''print'') [StrConst ''New datatype: '', Attribute (Name ''a'') ''dtype''])]),
      (1268,
       [Assign (Name ''b'') (BinOp (Name ''a'') ''/'' (Num 2)),
        Expr (Call (Name ''print'') [Name ''b''])]),
      (1279, [Expr (Call (Name ''print'') [Attribute (Name ''b'') ''dtype''])]),
      (1303,
       [Assign (Name ''a'') (Call (Attribute (Name ''np'') ''zeros'') [Tuple [Num 3, Num 3], Keyword ''dtype'' (Attribute (Name ''np'') ''complex64'')]),
        Expr (Call (Name ''print'') [Name ''a''])]),
      (1314,
       [Assign (Subscript (Name ''a'') (Tuple [Num 0, Num 0])) (BinOp (Num 5) ''+'' (Imag 2)),
        Assign (Subscript (Name ''a'') (Tuple [Num 0, Num 1])) (BinOp (Num 2) ''+'' (Imag 3)),
        Assign (Subscript (Name ''a'') (Tuple [UnaryOp ''-'' (Num 1), UnaryOp ''-'' (Num 1)])) (BinOp (Num 1) ''-'' (Imag 1)),
        Expr (Call (Name ''print'') [Name ''a''])]),
      (1335, [Expr (Call (Name ''print'') [Attribute (Name ''a'') ''real''])]),
      (1353, [Expr (Call (Name ''print'') [Attribute (Name ''a'') ''imag''])]),
      (1371,
       [Expr (Call (Name ''print'') [StrConst ''max = '', Call (Attribute (Name ''a'') ''max'') []]),
        Expr (Call (Name ''print'') [StrConst ''min = '', Call (Attribute (Name ''a'') ''min'') []])]),
      (1382, [Expr (Call (Name ''print'') [Call (Attribute (Name ''a'') ''sum'') []])]),
      (1392, [Expr (Call (Name ''print'') [Call (Attribute (Name ''a'') ''sum'') [Keyword ''axis'' (Num 0)]])]),
      (1402, [Expr (Call (Name ''print'') [Call (Attribute (Name ''a'') ''sum'') [Keyword ''axis'' (Num 1)]])])]"

definition source_of :: "nat \<Rightarrow> stmt list" where
  "source_of l = (case map_of notebook l of None \<Rightarrow> [] | Some c \<Rightarrow> c)"

subsection \<open>Names and calls\<close>

text \<open>
  The names an expression reads, in the order of evaluation, and the functions it
  calls: a call of \<open>np.arange\<close> is listed as \<^verbatim>\<open>np.arange\<close>, the call of a method on the
  result of an expression, as in \<^verbatim>\<open>np.arange(9).reshape(...)\<close>, as \<^verbatim>\<open>.reshape\<close>.
\<close>

fun names :: "expr \<Rightarrow> string list" where
  "names (Name x) = [x]"
| "names (Attribute e a) = names e"
| "names (Call f args) = names f @ concat (map names args)"
| "names (Keyword k e) = names e"
| "names (Subscript e i) = names e @ names i"
| "names (Slice l u s) = names l @ names u @ names s"
| "names (Tuple es) = concat (map names es)"
| "names (ListE es) = concat (map names es)"
| "names (BinOp l oper r) = names l @ names r"
| "names (UnaryOp oper e) = names e"
| "names (Compare l oper r) = names l @ names r"
| "names _ = []"

fun dotted :: "expr \<Rightarrow> string" where
  "dotted (Name x) = x"
| "dotted (Attribute (Name m) a) = m @ ''.'' @ a"
| "dotted (Attribute e a) = ''.'' @ a"
| "dotted _ = ''?''"

fun called :: "expr \<Rightarrow> string list" where
  "called (Call f args) = dotted f # called f @ concat (map called args)"
| "called (Attribute e a) = called e"
| "called (Keyword k e) = called e"
| "called (Subscript e i) = called e @ called i"
| "called (Slice l u s) = called l @ called u @ called s"
| "called (Tuple es) = concat (map called es)"
| "called (ListE es) = concat (map called es)"
| "called (BinOp l oper r) = called l @ called r"
| "called (UnaryOp oper e) = called e"
| "called (Compare l oper r) = called l @ called r"
| "called _ = []"

fun calls :: "stmt \<Rightarrow> string list"
  and calls_block :: "stmt list \<Rightarrow> string list" where
  "calls (Assign t e) = called e @ called t"
| "calls (Expr e) = called e"
| "calls (For x it body) = called it @ calls_block body"
| "calls (While c body) = called c @ calls_block body"
| "calls (IfStmt c yes no) = called c @ calls_block yes @ calls_block no"
| "calls (Try body handler) = calls_block body @ calls_block handler"
| "calls (FunctionDef f body) = calls_block body"
| "calls _ = []"
| "calls_block [] = []"
| "calls_block (s # ss) = calls s @ calls_block ss"

text \<open>A statement is authored control flow when it is not an import, an assignment or
  an expression statement.\<close>

fun has_control_flow :: "stmt \<Rightarrow> bool" where
  "has_control_flow (Magic m) = False"
| "has_control_flow (Import m a) = False"
| "has_control_flow (Assign t e) = False"
| "has_control_flow (Expr e) = False"
| "has_control_flow _ = True"

text \<open>
  The names a statement binds, and the names it reads that are not bound before it:
  \<open>bd\<close> holds the names bound so far. An assignment evaluates its right-hand side
  first; an assignment to \<open>z[idx]\<close> binds nothing and reads \<open>z\<close> and \<open>idx\<close>.
\<close>

fun bound_names :: "stmt \<Rightarrow> string list"
  and bound_names_block :: "stmt list \<Rightarrow> string list" where
  "bound_names (Import m a) = [a]"
| "bound_names (Assign (Name x) e) = [x]"
| "bound_names (For x it body) = x # bound_names_block body"
| "bound_names (While c body) = bound_names_block body"
| "bound_names (IfStmt c yes no) = bound_names_block yes @ bound_names_block no"
| "bound_names (Try body handler) = bound_names_block body @ bound_names_block handler"
| "bound_names (FunctionDef f body) = [f]"
| "bound_names _ = []"
| "bound_names_block [] = []"
| "bound_names_block (s # ss) = bound_names s @ bound_names_block ss"

definition unbound :: "string list \<Rightarrow> string list \<Rightarrow> string list" where
  "unbound bd ns = filter (\<lambda>n. n \<notin> set bd) ns"

fun free_names :: "stmt \<Rightarrow> string list \<Rightarrow> string list"
  and free_names_block :: "stmt list \<Rightarrow> string list \<Rightarrow> string list" where
  "free_names (Magic m) bd = []"
| "free_names (Import m a) bd = []"
| "free_names (Assign (Name x) e) bd = unbound bd (names e)"
| "free_names (Assign t e) bd = unbound bd (names e @ names t)"
| "free_names (Expr e) bd = unbound bd (names e)"
| "free_names (For x it body) bd = unbound bd (names it) @ free_names_block body (x # bd)"
| "free_names (While c body) bd = unbound bd (names c) @ free_names_block body bd"
| "free_names (IfStmt c yes no) bd =
     unbound bd (names c) @ free_names_block yes bd @ free_names_block no bd"
| "free_names (Try body handler) bd = free_names_block body bd @ free_names_block handler bd"
| "free_names (FunctionDef f body) bd = []"
| "free_names_block [] bd = []"
| "free_names_block (s # ss) bd = free_names s bd @ free_names_block ss (bound_names s @ bd)"

definition builtins :: "string list" where
  "builtins = [''print'', ''range'']"

text \<open>
  The notebook run in order: for every cell, the names it reads that neither it nor a
  cell before it has bound.
\<close>

fun unbound_reads :: "(nat \<times> stmt list) list \<Rightarrow> string list \<Rightarrow> (nat \<times> string list) list" where
  "unbound_reads [] bd = []"
| "unbound_reads ((l, c) # cs) bd =
     (l, free_names_block c bd) # unbound_reads cs (bound_names_block c @ bd)"

fun import_aliases :: "stmt list \<Rightarrow> string list" where
  "import_aliases [] = []"
| "import_aliases (Import m a # ss) = a # import_aliases ss"
| "import_aliases (s # ss) = import_aliases ss"

definition module_aliases :: "string list" where
  "module_aliases = concat (map (\<lambda>(l, c). import_aliases c) notebook)"

text \<open>
  The variables of earlier cells that a cell depends on: the names it reads without
  binding them first, the builtins and the module names of the imports apart. A cell
  is standalone when there is none.
\<close>

definition earlier_variables :: "stmt list \<Rightarrow> string list" where
  "earlier_variables c = unbound (module_aliases @ builtins) (free_names_block c [])"

subsection \<open>Handling of failure values\<close>

text \<open>
  A failure value (an infinity, a not-a-number) is detected by one of the library's
  tests. An expression is located by a failure test when it calls one or reads a name
  that holds the result of one (\<open>marked\<close>: the names bound to located expressions so
  far). A statement handles a failure when it is a \<^verbatim>\<open>try\<close>, tests a located condition,
  stores through a located index (it replaces the values found) or assigns a selection
  by a located index (it removes them).
\<close>

definition failure_tests :: "string list" where
  "failure_tests = [''np.isinf'', ''np.isnan'', ''np.isfinite'']"

definition located :: "expr \<Rightarrow> string list \<Rightarrow> bool" where
  "located e marked =
     (list_ex (\<lambda>f. f \<in> set failure_tests) (called e) \<or> list_ex (\<lambda>n. n \<in> set marked) (names e))"

fun selects_located :: "expr \<Rightarrow> string list \<Rightarrow> bool" where
  "selects_located (Subscript e i) mk = (located i mk \<or> selects_located e mk \<or> selects_located i mk)"
| "selects_located (Attribute e a) mk = selects_located e mk"
| "selects_located (Call f args) mk = (selects_located f mk \<or> list_ex (\<lambda>a. selects_located a mk) args)"
| "selects_located (Keyword k e) mk = selects_located e mk"
| "selects_located (Slice l u s) mk = (selects_located l mk \<or> selects_located u mk \<or> selects_located s mk)"
| "selects_located (Tuple es) mk = list_ex (\<lambda>a. selects_located a mk) es"
| "selects_located (ListE es) mk = list_ex (\<lambda>a. selects_located a mk) es"
| "selects_located (BinOp l oper r) mk = (selects_located l mk \<or> selects_located r mk)"
| "selects_located (UnaryOp oper e) mk = selects_located e mk"
| "selects_located (Compare l oper r) mk = (selects_located l mk \<or> selects_located r mk)"
| "selects_located _ mk = False"

fun marked_after :: "stmt \<Rightarrow> string list \<Rightarrow> string list"
  and marked_after_block :: "stmt list \<Rightarrow> string list \<Rightarrow> string list" where
  "marked_after (Assign (Name x) e) mk = (if located e mk then x # mk else removeAll x mk)"
| "marked_after (For x it body) mk = marked_after_block body (removeAll x mk)"
| "marked_after (While c body) mk = marked_after_block body mk"
| "marked_after (IfStmt c yes no) mk = marked_after_block no (marked_after_block yes mk)"
| "marked_after (Try body handler) mk = marked_after_block handler (marked_after_block body mk)"
| "marked_after _ mk = mk"
| "marked_after_block [] mk = mk"
| "marked_after_block (s # ss) mk = marked_after_block ss (marked_after s mk)"

fun handles_failure :: "stmt \<Rightarrow> string list \<Rightarrow> bool"
  and handles_failure_block :: "stmt list \<Rightarrow> string list \<Rightarrow> bool" where
  "handles_failure (Assign (Subscript e i) v) mk = (located i mk \<or> selects_located v mk)"
| "handles_failure (Assign t v) mk = selects_located v mk"
| "handles_failure (For x it body) mk = handles_failure_block body (removeAll x mk)"
| "handles_failure (While c body) mk = (located c mk \<or> handles_failure_block body mk)"
| "handles_failure (IfStmt c yes no) mk =
     (located c mk \<or> handles_failure_block yes mk \<or> handles_failure_block no mk)"
| "handles_failure (Try body handler) mk = True"
| "handles_failure (FunctionDef f body) mk = handles_failure_block body mk"
| "handles_failure _ mk = False"
| "handles_failure_block [] mk = False"
| "handles_failure_block (s # ss) mk =
     (handles_failure s mk \<or> handles_failure_block ss (marked_after s mk))"



section \<open>Properties\<close>

subsection \<open>Row-major order\<close>

text \<open>
  The multi-indices of a shape, taken in row-major order, are the positions
  \<open>0, 1, ...\<close> of the element sequence: so the row-major reading of a well-formed array
  is its element sequence.
\<close>

lemma concat_blocks_upt:
  "concat (map (\<lambda>i. map (\<lambda>j. i * p + j) [0..<p]) [0..<n]) = [0..<n * p]"
proof (induction n)
  case 0
  show ?case by simp
next
  case (Suc n)
  have "map (\<lambda>j. n * p + j) [0..<p] = [n * p..<n * p + p]"
    using map_add_upt [of "n * p" p] by (simp add: add.commute)
  moreover have "[0..<n * p + p] = [0..<n * p] @ [n * p..<n * p + p]"
    by (rule upt_add_eq_append) simp
  ultimately show ?case using Suc by (simp add: add.commute)
qed

lemma ravel_ndindex:
  "map (\<lambda>idx. ravel_multi_index idx s) (ndindex s) = [0..<prod_list s]"
proof (induction s)
  case Nil
  show ?case by simp
next
  case (Cons n ns)
  have "map (\<lambda>idx. ravel_multi_index idx (n # ns)) (ndindex (n # ns)) =
        concat (map (\<lambda>i. map (\<lambda>j. i * prod_list ns + j)
                              (map (\<lambda>idx. ravel_multi_index idx ns) (ndindex ns))) [0..<n])"
    by (simp add: map_concat comp_def)
  also have "\<dots> = [0..<n * prod_list ns]"
    by (simp only: Cons.IH concat_blocks_upt)
  finally show ?case by simp
qed

lemma flatten_eq_data:
  assumes "length (data a) = prod_list (shape a)"
  shows "flatten a = data a"
proof -
  have "flatten a = map ((!) (data a)) (map (\<lambda>idx. ravel_multi_index idx (shape a)) (ndindex (shape a)))"
    by (simp add: flatten_def comp_def)
  also have "\<dots> = map ((!) (data a)) [0..<length (data a)]"
    by (simp only: ravel_ndindex assms)
  also have "\<dots> = data a"
    by (rule map_nth)
  finally show ?thesis .
qed

lemma wf_array_reshape:
  "wf_array a \<Longrightarrow> reshape a shp = Inr r \<Longrightarrow> wf_array r"
  by (auto simp: wf_array_def reshape_def split: if_splits)

subsection \<open>Reshaping\<close>

text \<open>
  C1. Reshape preserves element count and ordering. For every (well-formed) array \<open>a\<close>
  and every target shape whose dimensions multiply to the number of elements of \<open>a\<close>,
  \<open>a.reshape(shape)\<close> returns an array of exactly that shape, with the element type and
  the number of elements of \<open>a\<close>, and reading the result in row-major order gives the
  elements of \<open>a\<close> in their row-major order. In particular the cell at line 202,
  \<open>b = np.arange(9).reshape((3, 3))\<close>, leaves in \<open>b\<close> an array of shape \<open>(3, 3)\<close> whose
  row-major reading is \<open>0, 1, ..., 8\<close>.
\<close>

theorem reshape_preserves_count_and_order:
  "(wf_array a \<and> prod_list shp = size_of a \<longrightarrow>
      (\<exists>r. reshape a shp = Inr r \<and> wf_array r \<and> shape r = shp \<and> dtype r = dtype a
           \<and> size_of r = size_of a \<and> length (flatten r) = length (flatten a)
           \<and> flatten r = flatten a))
   \<and> (\<exists>b. variable ''b'' (run_cells [cell_202] []) = Inr (Array b)
           \<and> shape b = [3, 3]
           \<and> flatten b = map I64 [0, 1, 2, 3, 4, 5, 6, 7, 8])"
proof (intro conjI impI)
  assume h: "wf_array a \<and> prod_list shp = size_of a"
  then have len: "length (data a) = prod_list (shape a)" and eq: "prod_list shp = length (data a)"
    by (simp_all add: wf_array_def size_of_def)
  define r where "r = a\<lparr>shape := shp\<rparr>"
  have r: "reshape a shp = Inr r"
    by (simp add: reshape_def eq r_def)
  have wf: "wf_array r"
    using h r by (blast intro: wf_array_reshape)
  have "flatten r = data r"
    by (rule flatten_eq_data) (simp add: r_def eq)
  moreover have "flatten a = data a"
    by (rule flatten_eq_data) (rule len)
  ultimately have fl: "flatten r = flatten a"
    by (simp add: r_def)
  show "\<exists>r. reshape a shp = Inr r \<and> wf_array r \<and> shape r = shp \<and> dtype r = dtype a
           \<and> size_of r = size_of a \<and> length (flatten r) = length (flatten a)
           \<and> flatten r = flatten a"
    using r wf fl by (intro exI [of _ r]) (simp add: r_def size_of_def eq len)
next
  have "variable ''b'' (run_cells [cell_202] []) =
        Inr (Array \<lparr>shape = [3, 3], dtype = int64, data = map I64 [0, 1, 2, 3, 4, 5, 6, 7, 8]\<rparr>)"
    by code_simp
  moreover have "flatten \<lparr>shape = [3, 3], dtype = int64, data = map I64 [0, 1, 2, 3, 4, 5, 6, 7, 8]\<rparr>
        = map I64 [0, 1, 2, 3, 4, 5, 6, 7, 8]"
    by code_simp
  ultimately show "\<exists>b. variable ''b'' (run_cells [cell_202] []) = Inr (Array b)
           \<and> shape b = [3, 3]
           \<and> flatten b = map I64 [0, 1, 2, 3, 4, 5, 6, 7, 8]"
    by simp
qed

theorem reshape_preserves_count_and_order_witness:
  "wf_array (np_arange 0 100) \<and> prod_list [10, 10] = size_of (np_arange 0 100)
   \<and> (\<exists>r. reshape (np_arange 0 100) [10, 10] = Inr r \<and> shape r = [10, 10]
          \<and> size_of r = size_of (np_arange 0 100)
          \<and> flatten r = flatten (np_arange 0 100))"
proof -
  have h: "wf_array (np_arange 0 100) \<and> prod_list [10, 10] = size_of (np_arange 0 100)"
    by code_simp
  from reshape_preserves_count_and_order [of "np_arange 0 100" "[10, 10]"] h
  show ?thesis by blast
qed

subsection \<open>Masks\<close>

lemma zip_with_and:
  "zip_with scalar_and (map (\<lambda>v. B (P v)) xs) (map (\<lambda>v. B (Q v)) xs) =
     Inr (map (\<lambda>v. B (P v \<and> Q v)) xs)"
  by (induction xs) simp_all

lemma zip_with_or:
  "zip_with scalar_or (map (\<lambda>v. B (P v)) xs) (map (\<lambda>v. B (Q v)) xs) =
     Inr (map (\<lambda>v. B (P v \<or> Q v)) xs)"
  by (induction xs) simp_all

lemma mask_of_elementwise: "mask_of c b = Inr (elementwise_mask (satisfies c) b)"
proof (induction c)
  case (Cmp oper n)
  show ?case by (simp add: compare_def elementwise_mask_def)
next
  case (BitAnd p q)
  then show ?case
    by (simp add: and_then_def bitwise_and_def elementwise_def elementwise_mask_def zip_with_and)
next
  case (BitOr p q)
  then show ?case
    by (simp add: and_then_def bitwise_or_def elementwise_def elementwise_mask_def zip_with_or)
qed

text \<open>The cells at lines 597, 617 and 627 print the masks of their conditions.\<close>

lemma cells_print_masks:
  "last_output (run_cells [cell_427, cell_494, cell_597] []) =
     Some (Printed [Array (compare Eq \<lparr>shape = [10, 10], dtype = int64,
                                         data = data (np_arange 0 100)\<rparr> 0)])"
  "map_option (\<lambda>out. Inr out) (last_output (run_cells [cell_427, cell_494, cell_617] [])) =
     Some (and_then (mask_of (BitAnd (Cmp Gt 10) (Cmp LtE 75))
                       \<lparr>shape = [10, 10], dtype = int64, data = data (np_arange 0 100)\<rparr>)
             (\<lambda>m. Inr (Printed [Array m])))"
  "map_option (\<lambda>out. Inr out) (last_output (run_cells [cell_427, cell_494, cell_627] [])) =
     Some (and_then (mask_of (BitOr (BitAnd (Cmp Gt 10) (Cmp Lt 75)) (Cmp Eq 99))
                       \<lparr>shape = [10, 10], dtype = int64, data = data (np_arange 0 100)\<rparr>)
             (\<lambda>m. Inr (Printed [Array m])))"
  by code_simp+

lemma norm_indices_in_bounds:
  "in_bounds idx s \<Longrightarrow> norm_indices s (map int idx) = Inr idx"
  by (induction idx s rule: in_bounds.induct) (simp_all add: norm_index_def)

lemma in_bounds_length: "in_bounds idx s \<Longrightarrow> length idx = length s"
  by (induction idx s rule: in_bounds.induct) simp_all

lemma ravel_less:
  "in_bounds idx s \<Longrightarrow> ravel_multi_index idx s < prod_list s"
proof (induction idx s rule: in_bounds.induct)
  case 1
  show ?case by simp
next
  case (2 i "is" n ns)
  then have i: "i < n" and r: "ravel_multi_index is ns < prod_list ns"
    by simp_all
  have "i * prod_list ns + ravel_multi_index is ns < i * prod_list ns + prod_list ns"
    using r by simp
  also have "\<dots> = Suc i * prod_list ns"
    by simp
  also have "\<dots> \<le> n * prod_list ns"
    using i by (intro mult_le_mono1) simp
  finally show ?case by simp
qed simp_all

lemma getitem_in_bounds:
  "in_bounds idx (shape a) \<Longrightarrow>
     getitem a (map int idx) = Inr (data a ! ravel_multi_index idx (shape a))"
  by (simp add: getitem_def norm_indices_in_bounds in_bounds_length)





subsection \<open>Indexing with the result of \<^verbatim>\<open>np.where\<close>\<close>

lemma ndindex_in_bounds: "idx \<in> set (ndindex s) \<Longrightarrow> in_bounds idx s"
  by (induction s arbitrary: idx) auto

lemma rows_of_columns:
  assumes "\<forall>idx \<in> set sel. length idx = nd"
  shows "rows_of (length sel) (map (\<lambda>k. map (\<lambda>idx. int (idx ! k)) sel) [0..<nd]) =
           map (map int) sel"
proof (rule nth_equalityI)
  show "length (rows_of (length sel) (map (\<lambda>k. map (\<lambda>idx. int (idx ! k)) sel) [0..<nd])) =
          length (map (map int) sel)"
    by (simp add: rows_of_def)
next
  fix j
  assume "j < length (rows_of (length sel) (map (\<lambda>k. map (\<lambda>idx. int (idx ! k)) sel) [0..<nd]))"
  then have j: "j < length sel"
    by (simp add: rows_of_def)
  then have len: "length (sel ! j) = nd"
    using assms by simp
  have "rows_of (length sel) (map (\<lambda>k. map (\<lambda>idx. int (idx ! k)) sel) [0..<nd]) ! j =
          map (\<lambda>k. int (sel ! j ! k)) [0..<nd]"
    using j by (simp add: rows_of_def comp_def)
  also have "\<dots> = map int (map ((!) (sel ! j)) [0..<length (sel ! j)])"
    by (simp add: len comp_def)
  also have "\<dots> = map int (sel ! j)"
    by (simp only: map_nth)
  finally show "rows_of (length sel) (map (\<lambda>k. map (\<lambda>idx. int (idx ! k)) sel) [0..<nd]) ! j =
          map (map int) sel ! j"
    using j by simp
qed

lemma getitems_in_bounds:
  "\<forall>idx \<in> set sel. in_bounds idx (shape a) \<Longrightarrow>
     getitems a (map (map int) sel) = Inr (map (\<lambda>idx. data a ! ravel_multi_index idx (shape a)) sel)"
  by (induction sel) (simp_all add: getitem_in_bounds)

lemma index_rows_where:
  assumes "shape m \<noteq> []" "shape a = shape m"
  shows "np_where m = Inr (map (\<lambda>k. map (\<lambda>idx. int (idx ! k)) (nonzero_positions m))
                            [0..<length (shape m)])"
    and "index_rows a (map (\<lambda>k. map (\<lambda>idx. int (idx ! k)) (nonzero_positions m))
                            [0..<length (shape m)]) = Inr (map (map int) (nonzero_positions m))"
proof -
  show "np_where m = Inr (map (\<lambda>k. map (\<lambda>idx. int (idx ! k)) (nonzero_positions m))
                            [0..<length (shape m)])"
    using assms by (simp add: np_where_def)
  have len: "\<forall>idx \<in> set (nonzero_positions m). length idx = length (shape m)"
    by (auto simp: nonzero_positions_def dest: ndindex_in_bounds in_bounds_length)
  have pos: "0 < length (shape m)"
    using assms by simp
  let ?cols = "map (\<lambda>k. map (\<lambda>idx. int (idx ! k)) (nonzero_positions m)) [0..<length (shape m)]"
  have hd: "length (hd ?cols) = length (nonzero_positions m)"
    using pos by (simp add: hd_map upt_conv_Cons)
  have all: "list_all (\<lambda>col. length col = length (hd ?cols)) ?cols"
    unfolding hd by (simp add: list_all_iff)
  have ne: "?cols \<noteq> []"
    using pos by simp
  have "index_rows a ?cols = Inr (rows_of (length (hd ?cols)) ?cols)"
    unfolding index_rows_def using all ne assms(2) by simp
  then show "index_rows a ?cols = Inr (map (map int) (nonzero_positions m))"
    unfolding hd by (simp only: rows_of_columns [OF len])
qed

lemma nonzero_positions_elementwise:
  assumes "length (data b) = prod_list (shape b)"
  shows "nonzero_positions (elementwise_mask P b) =
           filter (\<lambda>idx. P (data b ! ravel_multi_index idx (shape b))) (ndindex (shape b))"
  unfolding nonzero_positions_def
proof (rule filter_cong [OF _ ])
  show "ndindex (shape (elementwise_mask P b)) = ndindex (shape b)"
    by (simp add: elementwise_mask_def)
next
  fix idx assume "idx \<in> set (ndindex (shape b))"
  then have "ravel_multi_index idx (shape b) < length (data b)"
    using assms by (auto dest!: ndindex_in_bounds ravel_less)
  then show "truthy (data (elementwise_mask P b) ! ravel_multi_index idx (shape (elementwise_mask P b)))
              = P (data b ! ravel_multi_index idx (shape b))"
    by (simp add: elementwise_mask_def)
qed

text \<open>
  C9. Indexing with the result of \<^verbatim>\<open>np.where\<close> recovers exactly the selected elements.
  For every (well-formed) array \<open>b\<close> with at least one axis, in particular every
  two-dimensional one, and every elementwise condition \<open>P\<close>, \<^verbatim>\<open>np.where\<close> of the mask
  returns one index array per axis, and \<open>b\<close> indexed with them is a one-dimensional
  array of the element type of \<open>b\<close> holding exactly the elements of \<open>b\<close> that satisfy \<open>P\<close>,
  in the row-major order of their positions. In particular, for
  \<open>b = np.arange(100).reshape((10,10))\<close> (the cells at lines 427 and 494), the cells at
  lines 686 and 707 (\<open>idx = np.where(b > 10)\<close>, \<open>print(b[idx])\<close>) print the
  one-dimensional array \<open>11, 12, ..., 99\<close>.
\<close>

theorem where_indexing_selects:
  "(wf_array b \<and> shape b \<noteq> [] \<longrightarrow>
      (\<exists>idx r. np_where (elementwise_mask P b) = Inr idx \<and> length idx = length (shape b)
          \<and> getitem_tuple b idx = Inr r
          \<and> shape r = [length (data r)] \<and> dtype r = dtype b
          \<and> data r = filter P (flatten b)))
   \<and> last_output (run_cells [cell_427, cell_494, cell_686, cell_707] []) =
       Some (Printed [Array \<lparr>shape = [89], dtype = int64,
                              data = map (\<lambda>n. I64 (word_of_int n)) [11..99]\<rparr>])"
proof (intro conjI impI)
  assume h: "wf_array b \<and> shape b \<noteq> []"
  then have len: "length (data b) = prod_list (shape b)" and ne: "shape b \<noteq> []"
    by (simp_all add: wf_array_def)
  let ?m = "elementwise_mask P b"
  let ?sel = "nonzero_positions ?m"
  let ?idx = "map (\<lambda>k. map (\<lambda>idx. int (idx ! k)) ?sel) [0..<length (shape ?m)]"
  let ?vals = "map (\<lambda>idx. data b ! ravel_multi_index idx (shape b)) ?sel"
  let ?r = "\<lparr>shape = [length ?vals], dtype = dtype b, data = ?vals\<rparr>"
  have sm: "shape ?m \<noteq> []" "shape b = shape ?m"
    using ne by (simp_all add: elementwise_mask_def)
  have w: "np_where ?m = Inr ?idx" and rows: "index_rows b ?idx = Inr (map (map int) ?sel)"
    using index_rows_where [OF sm] by simp_all
  have sel: "?sel = filter (\<lambda>idx. P (data b ! ravel_multi_index idx (shape b))) (ndindex (shape b))"
    by (rule nonzero_positions_elementwise [OF len])
  have inb: "\<forall>idx \<in> set ?sel. in_bounds idx (shape b)"
    unfolding sel by (auto dest: ndindex_in_bounds)
  have items: "getitems b (map (map int) ?sel) = Inr ?vals"
    by (rule getitems_in_bounds [OF inb])
  have g: "getitem_tuple b ?idx = Inr ?r"
    by (simp add: getitem_tuple_def rows items)
  have "?vals = filter P (map (\<lambda>idx. data b ! ravel_multi_index idx (shape b)) (ndindex (shape b)))"
    unfolding sel by (simp add: filter_map comp_def)
  then have d: "data ?r = filter P (flatten b)"
    by (simp add: flatten_def)
  show "\<exists>idx r. np_where (elementwise_mask P b) = Inr idx \<and> length idx = length (shape b)
          \<and> getitem_tuple b idx = Inr r
          \<and> shape r = [length (data r)] \<and> dtype r = dtype b
          \<and> data r = filter P (flatten b)"
  proof (intro exI [of _ ?idx] exI [of _ ?r] conjI)
    show "np_where ?m = Inr ?idx" by (rule w)
    show "length ?idx = length (shape b)" by (simp add: elementwise_mask_def)
    show "getitem_tuple b ?idx = Inr ?r" by (rule g)
    show "shape ?r = [length (data ?r)]" by simp
    show "dtype ?r = dtype b" by simp
    show "data ?r = filter P (flatten b)" by (rule d)
  qed
next
  show "last_output (run_cells [cell_427, cell_494, cell_686, cell_707] []) =
       Some (Printed [Array \<lparr>shape = [89], dtype = int64,
                              data = map (\<lambda>n. I64 (word_of_int n)) [11..99]\<rparr>])"
    by code_simp
qed

theorem where_indexing_selects_witness:
  "\<exists>b idx r. variable ''b'' (run_cells [cell_427, cell_494] []) = Inr (Array b)
     \<and> wf_array b \<and> shape b = [10, 10]
     \<and> mask_of (BitAnd (Cmp Gt 10) (Cmp LtE 60)) b =
         Inr (elementwise_mask (satisfies (BitAnd (Cmp Gt 10) (Cmp LtE 60))) b)
     \<and> np_where (elementwise_mask (satisfies (BitAnd (Cmp Gt 10) (Cmp LtE 60))) b) = Inr idx
     \<and> getitem_tuple b idx = Inr r
     \<and> data r = map (\<lambda>n. I64 (word_of_int n)) [11..60]"
proof -
  define b where "b = \<lparr>shape = [10, 10], dtype = int64, data = data (np_arange 0 100)\<rparr>"
  let ?c = "BitAnd (Cmp Gt 10) (Cmp LtE 60)"
  have vb: "variable ''b'' (run_cells [cell_427, cell_494] []) = Inr (Array b)"
    unfolding b_def by code_simp
  have wf: "wf_array b \<and> shape b \<noteq> []"
    unfolding b_def by code_simp
  have f: "filter (satisfies ?c) (flatten b) = map (\<lambda>n. I64 (word_of_int n)) [11..60]"
    unfolding b_def by code_simp
  from where_indexing_selects [of b "satisfies ?c"] wf
  obtain idx r where "np_where (elementwise_mask (satisfies ?c) b) = Inr idx"
    "getitem_tuple b idx = Inr r" "data r = filter (satisfies ?c) (flatten b)"
    by blast
  then show ?thesis
    using vb wf f mask_of_elementwise [of ?c b] by (auto simp: b_def)
qed

subsection \<open>Replacing the infinite values\<close>














subsection \<open>The loop and the vectorised sum\<close>

text \<open>
  C8. With \<open>a = np.arange(9)\<close> and \<open>b = np.arange(10,19)\<close> (the cell at line 752), the
  hand-written loop of the cell at line 783, which starts from an 8-bit unsigned array
  of zeros and stores \<open>a[i] + b[i]\<close> in \<open>x[i]\<close> for \<open>i = 0, ..., 8\<close>, leaves in \<open>x\<close> an array
  of the same shape and the same nine values as the vectorised sum \<open>x = a + b\<close> of the
  cell at line 764: the values 10, 12, ..., 26.
\<close>

theorem loop_add_equals_vectorized_add:
  "array_values (variable ''x'' (run_cells [cell_752, cell_783] [])) =
     array_values (variable ''x'' (run_cells [cell_752, cell_764] []))
   \<and> array_values (variable ''x'' (run_cells [cell_752, cell_783] [])) =
     Some ([9], map Some [10, 12, 14, 16, 18, 20, 22, 24, 26])"
  by code_simp

subsection \<open>Division by zero\<close>

text \<open>
  C5. Division producing an infinite value does not abort the computation. With
  \<open>a = np.arange(9)\<close> and \<open>b = np.arange(10,19)\<close> (the cell at line 752), \<open>z = b / a\<close> (the
  cell at line 818) returns normally; \<open>z[0]\<close> is the positive infinity and, for
  \<open>i = 1, ..., 8\<close>, \<open>z[i]\<close> is the quotient \<open>b[i] / a[i] = (10 + i) / i\<close> as a float, that is
  rounded to the nearest 64-bit float (the values are listed: 11, 6, 7/2, 3 and 9/4
  are the quotients themselves); and \<open>np.isinf(z)\<close>, which the cell at line 845 prints,
  is \<open>True\<close> exactly at position 0.
\<close>

theorem division_by_zero_gives_inf:
  "variable ''z'' (run_cells [cell_752, cell_818] []) =
     Inr (Array \<lparr>shape = [9], dtype = float64,
                 data = F64 PInf # map (\<lambda>i. F64 (round64 (of_int (10 + i) / of_int i))) [1..8]\<rparr>)
   \<and> map (\<lambda>i. round64 (of_int (10 + i) / of_int i)) [1..8] =
       [Fin 11, Fin 6, Fin (4878899596318037 / 1125899906842624), Fin (7 / 2), Fin 3,
        Fin (6004799503160661 / 2251799813685248), Fin (5468656690378459 / 2251799813685248),
        Fin (9 / 4)]
   \<and> last_output (run_cells [cell_752, cell_818, cell_845] []) =
       Some (Printed [Array \<lparr>shape = [9], dtype = boolean,
                              data = B True # replicate 8 (B False)\<rparr>])"
  by code_simp

subsection \<open>Control flow in the cells\<close>

text \<open>
  C7, as the specification states it: every code cell is a direct call into the array
  library, with no authored control-flow algorithm such as an element-by-element loop.
  The cell at line 783 refutes it: its second statement is a \<^verbatim>\<open>for\<close> loop over
  \<open>range(9)\<close> that adds two arrays element by element.
\<close>

theorem loop_cell_has_control_flow:
  "list_ex has_control_flow (source_of 783)
   \<and> source_of 783 =
       [Assign (Name ''x'')
          (Call (Attribute (Name ''np'') ''zeros'')
             [Attribute (Name ''a'') ''shape'',
              Keyword ''dtype'' (Attribute (Name ''np'') ''uint8'')]),
        For ''i'' (Call (Name ''range'') [Num 9])
          [Assign (Subscript (Name ''x'') (Name ''i''))
             (BinOp (Subscript (Name ''a'') (Name ''i'')) ''+''
                (Subscript (Name ''b'') (Name ''i'')))],
        Expr (Call (Name ''print'') [Name ''x''])]"
  by code_simp

text \<open>
  C7, amended. Of the 81 code cells, the cell at line 783 is the only one with authored
  control flow (the loop above); every other cell is a straight-line sequence of
  imports, assignments and expression statements. Every function called anywhere in
  the notebook is a function of the array library (\<^verbatim>\<open>np.\<close>), of the plotting library
  (\<^verbatim>\<open>plt.\<close>), a method of an array, or the builtin \<^verbatim>\<open>print\<close> or \<^verbatim>\<open>range\<close>.
\<close>

theorem only_the_loop_cell_has_control_flow:
  "length notebook = 81
   \<and> map fst (filter (\<lambda>(l, c). list_ex has_control_flow c) notebook) = [783]
   \<and> remdups (concat (map (\<lambda>(l, c). calls_block c) notebook)) =
       [''np.array'', ''a.reshape'', ''range'', ''np.where'', ''np.isinf'', ''np.sqrt'',
        ''np.log'', ''np.log10'', ''np.sin'', ''plt.plot'', ''plt.xlabel'', ''plt.ylabel'',
        ''.reshape'', ''plt.imshow'', ''a.mean'', ''plt.colorbar'', ''b.astype'', ''np.arange'',
        ''a.astype'', ''np.zeros'', ''a.max'', ''a.min'', ''print'', ''a.sum'']"
  by code_simp

subsection \<open>Dependences between the cells\<close>

text \<open>
  C6, as the specification states it: each cell is standalone, its values depend only
  on arrays constructed within the same cell, and running it in an empty variable
  environment gives the same result as running it after the cells before it. The cell
  at line 707, \<open>print(b[idx])\<close>, refutes it: it reads \<open>b\<close> and \<open>idx\<close>, which it does not
  bind; run in the empty environment it raises \<^verbatim>\<open>NameError\<close>, and run after the cells
  that bind \<open>b\<close> and \<open>idx\<close> (lines 427, 494 and 686) it prints \<open>11, ..., 99\<close>.
\<close>

theorem cell_707_depends_on_earlier_cells:
  "source_of 707 = [Expr (Call (Name ''print'') [Subscript (Name ''b'') (Name ''idx'')])]
   \<and> earlier_variables (source_of 707) = [''b'', ''idx'']
   \<and> run_cells [cell_707] [] = Inl NameError
   \<and> last_output (run_cells [cell_427, cell_494, cell_686, cell_707] []) =
       Some (Printed [Array \<lparr>shape = [89], dtype = int64,
                              data = map (\<lambda>n. I64 (word_of_int n)) [11..99]\<rparr>])"
  by code_simp

text \<open>
  C6, amended. The cells are sequential: run in order, every name a cell reads is a
  builtin or has been bound by an import, by the cell itself or by a cell before it.
  The cells that read no variable of an earlier cell (the module names of the imports
  apart) are the 16 cells at the lines listed, which construct the arrays they use;
  each of the other 65 cells reads a variable that an earlier cell has bound.
\<close>

theorem cells_read_earlier_cells:
  "list_all (\<lambda>(l, fr). fr = []) (unbound_reads notebook builtins)
   \<and> map fst (filter (\<lambda>(l, c). earlier_variables c = []) notebook) =
       [29, 51, 70, 202, 268, 427, 752, 911, 949, 1010, 1035, 1078, 1170, 1189, 1255, 1303]
   \<and> length (filter (\<lambda>(l, c). earlier_variables c \<noteq> []) notebook) = 65"
  by code_simp

subsection \<open>Handling of the infinite value\<close>



subsection \<open>Rounding to a 64-bit float\<close>

































subsection \<open>Division promotes to floating point\<close>






end
